theory Spec2Isabelle
  imports Complex_Main
begin

section \<open>Python values\<close>

text \<open>
  The values that travel through the escrow system's dictionaries. A Python \<open>dict\<close> is an
  association list in insertion order (a key is looked up with \<open>map_of\<close>); a \<open>float\<close>
  stored in a dictionary is represented by the number its literal denotes. No float
  arithmetic is done on these values.
\<close>

datatype pyval =
    PNone
  | PBool bool
  | PInt int
  | PFloat real
  | PStr string
  | PList "pyval list"
  | PDict "(string \<times> pyval) list"

type_synonym pydict = "(string \<times> pyval) list"

text \<open>\<open>d.get(k, default)\<close>\<close>

definition dict_get :: "pydict \<Rightarrow> string \<Rightarrow> pyval \<Rightarrow> pyval" where
  "dict_get d k dflt = (case map_of d k of None \<Rightarrow> dflt | Some v \<Rightarrow> v)"

text \<open>\<open>k in d\<close>\<close>

definition dict_mem :: "string \<Rightarrow> pydict \<Rightarrow> bool" where
  "dict_mem k d = (map_of d k \<noteq> None)"

section \<open>The escrow protocol (protocols/escrow\_protocol.py)\<close>

subsection \<open>Message types\<close>

definition CREATE_ESCROW :: string where "CREATE_ESCROW = ''create_escrow''"
definition ESCROW_CREATED :: string where "ESCROW_CREATED = ''escrow_created''"
definition DEPOSIT_REQUEST :: string where "DEPOSIT_REQUEST = ''deposit_request''"
definition DEPOSIT_CONFIRMED :: string where "DEPOSIT_CONFIRMED = ''deposit_confirmed''"
definition FULFILLMENT_REQUEST :: string where "FULFILLMENT_REQUEST = ''fulfillment_request''"
definition FULFILLMENT_CONFIRMED :: string where "FULFILLMENT_CONFIRMED = ''fulfillment_confirmed''"
definition RELEASE_REQUEST :: string where "RELEASE_REQUEST = ''release_request''"
definition REFUND_REQUEST :: string where "REFUND_REQUEST = ''refund_request''"
definition DISPUTE_RAISED_MSG :: string where "DISPUTE_RAISED_MSG = ''dispute_raised''"
definition DISPUTE_RESOLVED :: string where "DISPUTE_RESOLVED = ''dispute_resolved''"
definition STATUS_UPDATE :: string where "STATUS_UPDATE = ''status_update''"
definition ORACLE_VERIFICATION :: string where "ORACLE_VERIFICATION = ''oracle_verification''"
definition ORACLE_RESPONSE :: string where "ORACLE_RESPONSE = ''oracle_response''"
definition HEARTBEAT :: string where "HEARTBEAT = ''heartbeat''"
definition ERROR :: string where "ERROR = ''error''"
definition SUCCESS :: string where "SUCCESS = ''success''"

definition SUPPORTED_MESSAGE_TYPES :: "string list" where
  "SUPPORTED_MESSAGE_TYPES =
     [CREATE_ESCROW, ESCROW_CREATED, DEPOSIT_REQUEST, DEPOSIT_CONFIRMED,
      FULFILLMENT_REQUEST, FULFILLMENT_CONFIRMED, RELEASE_REQUEST, REFUND_REQUEST,
      DISPUTE_RAISED_MSG, DISPUTE_RESOLVED, STATUS_UPDATE, ORACLE_VERIFICATION,
      ORACLE_RESPONSE, HEARTBEAT, ERROR, SUCCESS]"

subsection \<open>Message constructors\<close>

text \<open>
  Every constructor reads the clock (\<open>datetime.now(timezone.utc).isoformat()\<close>) and draws a
  fresh identifier (\<open>str(uuid4())\<close>). Both are inputs of the model: \<open>ts\<close> is the timestamp
  string and \<open>mid\<close> the identifier the call obtained.
\<close>

definition create_escrow_message :: "string \<Rightarrow> string \<Rightarrow> pydict \<Rightarrow> pydict" where
  "create_escrow_message ts mid escrow_data =
     [(''type'', PStr CREATE_ESCROW),
      (''timestamp'', PStr ts),
      (''msg_id'', PStr mid),
      (''data'', PDict escrow_data)]"

definition create_deposit_message ::
  "string \<Rightarrow> string \<Rightarrow> string \<Rightarrow> pydict \<Rightarrow> string \<Rightarrow> pydict" where
  "create_deposit_message ts mid escrow_id asset_data transaction_hash =
     [(''type'', PStr DEPOSIT_REQUEST),
      (''timestamp'', PStr ts),
      (''msg_id'', PStr mid),
      (''data'', PDict
         [(''escrow_id'', PStr escrow_id),
          (''asset_data'', PDict asset_data),
          (''transaction_hash'', PStr transaction_hash)])]"

definition create_fulfillment_message ::
  "string \<Rightarrow> string \<Rightarrow> string \<Rightarrow> pydict \<Rightarrow> pydict" where
  "create_fulfillment_message ts mid escrow_id fulfillment_data =
     [(''type'', PStr FULFILLMENT_REQUEST),
      (''timestamp'', PStr ts),
      (''msg_id'', PStr mid),
      (''data'', PDict
         [(''escrow_id'', PStr escrow_id),
          (''fulfillment_data'', PDict fulfillment_data)])]"

definition create_dispute_message ::
  "string \<Rightarrow> string \<Rightarrow> string \<Rightarrow> pydict \<Rightarrow> pydict" where
  "create_dispute_message ts mid escrow_id dispute_data =
     [(''type'', PStr DISPUTE_RAISED_MSG),
      (''timestamp'', PStr ts),
      (''msg_id'', PStr mid),
      (''data'', PDict
         [(''escrow_id'', PStr escrow_id),
          (''dispute_data'', PDict dispute_data)])]"

definition create_oracle_verification_message ::
  "string \<Rightarrow> string \<Rightarrow> string \<Rightarrow> pydict \<Rightarrow> pydict" where
  "create_oracle_verification_message ts mid escrow_id transaction_data =
     [(''type'', PStr ORACLE_VERIFICATION),
      (''timestamp'', PStr ts),
      (''msg_id'', PStr mid),
      (''data'', PDict
         [(''escrow_id'', PStr escrow_id),
          (''transaction_data'', PDict transaction_data)])]"

definition create_status_update_message ::
  "string \<Rightarrow> string \<Rightarrow> string \<Rightarrow> string \<Rightarrow> string \<Rightarrow> string \<Rightarrow> pydict" where
  "create_status_update_message ts mid escrow_id old_status new_status reason =
     [(''type'', PStr STATUS_UPDATE),
      (''timestamp'', PStr ts),
      (''msg_id'', PStr mid),
      (''data'', PDict
         [(''escrow_id'', PStr escrow_id),
          (''old_status'', PStr old_status),
          (''new_status'', PStr new_status),
          (''reason'', PStr reason)])]"

text \<open>\<open>details: str = None\<close>: the optional argument is stored as it is.\<close>

definition create_error_message ::
  "string \<Rightarrow> string \<Rightarrow> string \<Rightarrow> string option \<Rightarrow> pydict" where
  "create_error_message ts mid error details =
     [(''type'', PStr ERROR),
      (''timestamp'', PStr ts),
      (''msg_id'', PStr mid),
      (''data'', PDict
         [(''error'', PStr error),
          (''details'', (case details of None \<Rightarrow> PNone | Some s \<Rightarrow> PStr s))])]"

text \<open>\<open>data or {}\<close>: \<open>None\<close> and the empty dictionary both give the empty dictionary.\<close>

definition create_success_message ::
  "string \<Rightarrow> string \<Rightarrow> string \<Rightarrow> pydict option \<Rightarrow> pydict" where
  "create_success_message ts mid message data =
     [(''type'', PStr SUCCESS),
      (''timestamp'', PStr ts),
      (''msg_id'', PStr mid),
      (''data'', PDict
         [(''message'', PStr message),
          (''data'', PDict (case data of None \<Rightarrow> [] | Some d \<Rightarrow> if d = [] then [] else d))])]"

text \<open>\<open>uptime\<close> is a second reading of the clock, in whole seconds.\<close>

definition create_heartbeat_message ::
  "string \<Rightarrow> string \<Rightarrow> int \<Rightarrow> string \<Rightarrow> string \<Rightarrow> pydict" where
  "create_heartbeat_message ts mid uptime agent_type status =
     [(''type'', PStr HEARTBEAT),
      (''timestamp'', PStr ts),
      (''msg_id'', PStr mid),
      (''data'', PDict
         [(''agent_type'', PStr agent_type),
          (''status'', PStr status),
          (''uptime'', PInt uptime)])]"

definition create_acknowledgement_message :: "string \<Rightarrow> string \<Rightarrow> string \<Rightarrow> pydict" where
  "create_acknowledgement_message ts mid original_msg_id =
     [(''type'', PStr ''acknowledgement''),
      (''timestamp'', PStr ts),
      (''msg_id'', PStr mid),
      (''data'', PDict [(''acknowledged_msg_id'', PStr original_msg_id)])]"

definition create_response_message ::
  "string \<Rightarrow> string \<Rightarrow> string \<Rightarrow> string \<Rightarrow> pydict \<Rightarrow> pydict" where
  "create_response_message ts mid original_msg_id response_type response_data =
     [(''type'', PStr response_type),
      (''timestamp'', PStr ts),
      (''msg_id'', PStr mid),
      (''data'', PDict
         [(''original_msg_id'', PStr original_msg_id),
          (''response_data'', PDict response_data)])]"

subsection \<open>Utility functions\<close>

definition parse_message_type :: "pydict \<Rightarrow> pyval" where
  "parse_message_type message = dict_get message ''type'' (PStr ''unknown'')"

definition parse_message_data :: "pydict \<Rightarrow> pyval" where
  "parse_message_data message = dict_get message ''data'' (PDict [])"

definition required_fields :: "string list" where
  "required_fields = [''type'', ''timestamp'', ''msg_id'', ''data'']"

definition validate_message :: "pydict \<Rightarrow> bool" where
  "validate_message message = list_all (\<lambda>field. dict_mem field message) required_fields"

subsection \<open>The calls that build an envelope\<close>

text \<open>
  One value per call of a constructor of the module, with the arguments of the call;
  \<open>construct\<close> performs the call with the timestamp and identifier it obtained.
\<close>

datatype constructor_call =
    CreateEscrowMessage pydict
  | CreateDepositMessage string pydict string
  | CreateFulfillmentMessage string pydict
  | CreateDisputeMessage string pydict
  | CreateOracleVerificationMessage string pydict
  | CreateStatusUpdateMessage string string string string
  | CreateErrorMessage string "string option"
  | CreateSuccessMessage string "pydict option"
  | CreateHeartbeatMessage int string string
  | CreateAcknowledgementMessage string
  | CreateResponseMessage string string pydict

fun construct :: "string \<Rightarrow> string \<Rightarrow> constructor_call \<Rightarrow> pydict" where
  "construct ts mid (CreateEscrowMessage d) = create_escrow_message ts mid d"
| "construct ts mid (CreateDepositMessage i a h) = create_deposit_message ts mid i a h"
| "construct ts mid (CreateFulfillmentMessage i f) = create_fulfillment_message ts mid i f"
| "construct ts mid (CreateDisputeMessage i d) = create_dispute_message ts mid i d"
| "construct ts mid (CreateOracleVerificationMessage i t) =
     create_oracle_verification_message ts mid i t"
| "construct ts mid (CreateStatusUpdateMessage i old new r) =
     create_status_update_message ts mid i old new r"
| "construct ts mid (CreateErrorMessage e d) = create_error_message ts mid e d"
| "construct ts mid (CreateSuccessMessage m d) = create_success_message ts mid m d"
| "construct ts mid (CreateHeartbeatMessage up a s) = create_heartbeat_message ts mid up a s"
| "construct ts mid (CreateAcknowledgementMessage i) = create_acknowledgement_message ts mid i"
| "construct ts mid (CreateResponseMessage i t d) = create_response_message ts mid i t d"

fun is_acknowledgement :: "constructor_call \<Rightarrow> bool" where
  "is_acknowledgement (CreateAcknowledgementMessage _) = True"
| "is_acknowledgement _ = False"

fun is_response :: "constructor_call \<Rightarrow> bool" where
  "is_response (CreateResponseMessage _ _ _) = True"
| "is_response _ = False"

section \<open>Exceptions\<close>

text \<open>
  A raised exception is a value: its class and the text \<open>str(e)\<close> gives. A computation
  that may raise returns \<open>exn + 'a\<close>, with \<open>Inl\<close> for the exception. Every class below
  derives from \<open>Exception\<close>; \<open>JSONDecodeError\<close> derives from \<open>ValueError\<close>.
\<close>

datatype exn_class =
    ValueError
  | TypeError
  | JSONDecodeError
  | KeyError
  | IndexError
  | AttributeError
  | RequestException
  | OtherException

datatype exn = Exn exn_class string

fun class_of :: "exn \<Rightarrow> exn_class" where
  "class_of (Exn c _) = c"

fun str_of_exn :: "exn \<Rightarrow> string" where
  "str_of_exn (Exn _ msg) = msg"

fun is_subclass :: "exn_class \<Rightarrow> exn_class \<Rightarrow> bool" where
  "is_subclass JSONDecodeError ValueError = True"
| "is_subclass c c' = (c = c')"

text \<open>Sequencing: the second statement runs when the first did not raise.\<close>

definition bind_exn :: "exn + 'a \<Rightarrow> ('a \<Rightarrow> exn + 'b) \<Rightarrow> exn + 'b" where
  "bind_exn m f = (case m of Inl e \<Rightarrow> Inl e | Inr v \<Rightarrow> f v)"

text \<open>\<open>try: body  except (C1, ..., Cn): handler\<close>\<close>

definition try_except ::
  "exn + 'a \<Rightarrow> exn_class list \<Rightarrow> (exn \<Rightarrow> exn + 'a) \<Rightarrow> exn + 'a" where
  "try_except body classes handler =
     (case body of
        Inl e \<Rightarrow> if list_ex (is_subclass (class_of e)) classes then handler e else Inl e
      | Inr v \<Rightarrow> Inr v)"

text \<open>\<open>try: body  except Exception as e: handler\<close>\<close>

definition try_except_Exception :: "exn + 'a \<Rightarrow> (exn \<Rightarrow> exn + 'a) \<Rightarrow> exn + 'a" where
  "try_except_Exception body handler =
     (case body of Inl e \<Rightarrow> handler e | Inr v \<Rightarrow> Inr v)"

section \<open>Shared models (shared/models.py)\<close>

datatype EscrowState =
    AWAITING_DEPOSIT
  | AWAITING_FULFILLMENT
  | DISPUTE_RAISED
  | COMPLETED
  | CANCELED

datatype TradeType = CRYPTO | FIAT_P2P | CROSS_CHAIN

datatype AssetType = ETH | ERC20 | ERC721 | ERC1155 | BTC | FIAT

datatype ChainType = ETHEREUM | BASE | CELO | OPTIMISM | BSC | BITCOIN

text \<open>
  The dataclasses \<open>Asset\<close>, \<open>EscrowTerms\<close> and \<open>EscrowData\<close>. The fields \<open>type\<close>, \<open>chain\<close> and
  \<open>name\<close> of an asset are \<open>asset_type\<close>, \<open>chain_type\<close> and \<open>asset_name\<close> here. The two fee
  percentages are Python floats that the code below only stores; they are represented by
  the numbers they denote.
\<close>

record Asset =
  asset_type :: AssetType
  address :: "string option"
  amount :: string
  chain_type :: ChainType
  symbol :: "string option"
  decimals :: int
  asset_name :: "string option"

record EscrowTerms =
  description :: string
  deadline :: int
  auto_release_hours :: "int option"
  dispute_window_hours :: int
  arbiter_fee_percentage :: real
  platform_fee_percentage :: real

record EscrowData =
  escrow_id :: string
  contract_address :: "string option"
  status :: EscrowState
  trade_type :: TradeType
  buyer_address :: string
  seller_address :: string
  arbiter_address :: string
  creator_agent :: string
  asset_a :: "Asset option"
  asset_b :: "Asset option"
  terms :: "EscrowTerms option"
  created_at :: int
  updated_at :: int
  deposit_tx_hash :: "string option"
  fulfillment_tx_hash :: "string option"
  release_tx_hash :: "string option"
  refund_tx_hash :: "string option"
  dispute_id :: "string option"
  dispute_reason :: "string option"
  dispute_evidence :: "pydict list"
  frontend_callback_url :: "string option"
  frontend_session_id :: "string option"
  metadata :: pydict

text \<open>
  \<open>DisputeRecord\<close>. Five of its fields bear the names of fields of \<open>EscrowData\<close>; they
  carry the prefix \<open>rec_\<close> here. \<open>status\<close> is one of \<open>open\<close>, \<open>under_review\<close>, \<open>resolved\<close>
  and \<open>decision\<close> one of \<open>release\<close>, \<open>refund\<close>.
\<close>

record DisputeRecord =
  rec_dispute_id :: string
  rec_escrow_id :: string
  disputing_party :: string
  reason :: string
  evidence :: "pydict list"
  rec_status :: string
  rec_arbiter_address :: string
  rec_created_at :: int
  resolved_at :: "int option"
  decision :: "string option"
  arbiter_reasoning :: "string option"

section \<open>Shared utilities (shared/utils.py)\<close>

subsection \<open>Python's \<open>int(s, 16)\<close>\<close>

text \<open>
  \<open>int(s, 16)\<close> on a string of ASCII characters, as CPython reads it: whitespace on both
  sides is skipped, one sign is allowed, then an optional \<open>0x\<close> or \<open>0X\<close> prefix (which one
  underscore may follow), then hexadecimal digits in groups separated by single
  underscores. Anything else raises \<open>ValueError\<close>. The validators below discard the
  number and keep only whether the call raised, so the model is the predicate
  "the call returns".
\<close>

definition py_isspace :: "char \<Rightarrow> bool" where
  "py_isspace c \<longleftrightarrow>
     c \<in> {CHR '' '', CHR 0x09, CHR 0x0A, CHR 0x0B, CHR 0x0C, CHR 0x0D}"

definition hex_digit :: "char \<Rightarrow> bool" where
  "hex_digit c \<longleftrightarrow> c \<in> set ''0123456789abcdefABCDEF''"

definition strip_sign :: "string \<Rightarrow> string" where
  "strip_sign s =
     (case s of
        [] \<Rightarrow> []
      | c # r \<Rightarrow> if c = CHR ''+'' \<or> c = CHR ''-'' then r else s)"

definition strip_base16_prefix :: "string \<Rightarrow> string" where
  "strip_base16_prefix s =
     (case s of
        a # b # r \<Rightarrow>
          if a = CHR ''0'' \<and> (b = CHR ''x'' \<or> b = CHR ''X'')
          then (case r of
                  [] \<Rightarrow> r
                | u # r' \<Rightarrow> if u = CHR ''_'' then r' else r)
          else s
      | _ \<Rightarrow> s)"

fun no_double_underscore :: "string \<Rightarrow> bool" where
  "no_double_underscore (a # b # r) =
     (\<not> (a = CHR ''_'' \<and> b = CHR ''_'') \<and> no_double_underscore (b # r))"
| "no_double_underscore _ = True"

definition digit_or_underscore :: "char \<Rightarrow> bool" where
  "digit_or_underscore c \<longleftrightarrow> hex_digit c \<or> c = CHR ''_''"

definition int16_returns :: "string \<Rightarrow> bool" where
  "int16_returns s =
     (let s1 = dropWhile py_isspace s;
          s2 = strip_sign s1;
          s3 = strip_base16_prefix s2;
          body = takeWhile digit_or_underscore s3;
          rest = dropWhile digit_or_underscore s3
      in body \<noteq> []
         \<and> hd body \<noteq> CHR ''_''
         \<and> last body \<noteq> CHR ''_''
         \<and> no_double_underscore body
         \<and> list_all py_isspace rest)"

subsection \<open>Validators\<close>

definition startswith :: "string \<Rightarrow> string \<Rightarrow> bool" where
  "startswith s p \<longleftrightarrow> take (length p) s = p"

definition validate_address :: "string \<Rightarrow> bool" where
  "validate_address addr =
     (if addr = [] then False
      else if startswith addr ''0x'' \<and> length addr = 42
      then (if int16_returns (drop 2 addr) then True else False)
      else False)"

definition validate_transaction_hash :: "string \<Rightarrow> bool" where
  "validate_transaction_hash tx_hash =
     (if tx_hash = [] then False
      else if startswith tx_hash ''0x'' \<and> length tx_hash = 66
      then (if int16_returns (drop 2 tx_hash) then True else False)
      else False)"

text \<open>
  The format the validators are documented to accept: the literal prefix \<open>0x\<close> followed
  by exactly \<open>n\<close> hexadecimal characters.
\<close>

definition is_0x_hex :: "nat \<Rightarrow> string \<Rightarrow> bool" where
  "is_0x_hex n s \<longleftrightarrow>
     take 2 s = ''0x'' \<and> length s = n + 2 \<and> list_all hex_digit (drop 2 s)"

text \<open>
  \<open>validate_escrow_data\<close> reads the clock once (\<open>int(time.time())\<close>): \<open>now\<close> is that
  reading. Each check appends its message to the list of errors, in the order of the
  source.
\<close>

definition asset_missing :: "Asset option \<Rightarrow> bool" where
  "asset_missing a = (case a of None \<Rightarrow> True | Some x \<Rightarrow> amount x = [])"

definition validate_escrow_data :: "int \<Rightarrow> EscrowData \<Rightarrow> string list" where
  "validate_escrow_data now escrow_data =
     (if \<not> validate_address (buyer_address escrow_data)
      then [''Invalid buyer address''] else [])
   @ (if \<not> validate_address (seller_address escrow_data)
      then [''Invalid seller address''] else [])
   @ (if \<not> validate_address (arbiter_address escrow_data)
      then [''Invalid arbiter address''] else [])
   @ (if escrow_id escrow_data = [] \<or> length (escrow_id escrow_data) < 10
      then [''Invalid escrow ID''] else [])
   @ (if asset_missing (asset_a escrow_data)
      then [''Asset A is required''] else [])
   @ (if asset_missing (asset_b escrow_data)
      then [''Asset B is required''] else [])
   @ (if (case terms escrow_data of None \<Rightarrow> True | Some t \<Rightarrow> description t = [])
      then [''Escrow description is required''] else [])
   @ (if (case terms escrow_data of None \<Rightarrow> False | Some t \<Rightarrow> deadline t \<le> now)
      then [''Deadline must be in the future''] else [])"

subsection \<open>Amounts and fees\<close>

text \<open>
  The operations of Python's \<open>float\<close> that \<open>format_amount\<close> and \<open>calculate_fees\<close> call,
  for a type \<open>'f\<close> of floats:
  \<^item> \<open>float_of_str s\<close> is \<open>float(s)\<close>, \<open>None\<close> when it raises (on a string it raises
    \<open>ValueError\<close> and nothing else);
  \<^item> \<open>format_fixed x d\<close> is the format \<open>f"{x:.{d}f}"\<close>, \<open>None\<close> when the precision is
    refused (\<open>ValueError\<close>);
  \<^item> \<open>str_of_float\<close> is \<open>str(x)\<close>;
  \<^item> \<open>fmul\<close> and \<open>fsub\<close> are \<open>*\<close> and \<open>-\<close>, and \<open>div100 x\<close> is \<open>x / 100\<close>: none of the three
    raises on floats, the divisor being a non-zero literal.
\<close>

record 'f py_float =
  float_of_str :: "string \<Rightarrow> 'f option"
  format_fixed :: "'f \<Rightarrow> int \<Rightarrow> string option"
  str_of_float :: "'f \<Rightarrow> string"
  fmul :: "'f \<Rightarrow> 'f \<Rightarrow> 'f"
  fsub :: "'f \<Rightarrow> 'f \<Rightarrow> 'f"
  div100 :: "'f \<Rightarrow> 'f"

definition raise_ValueError_if_None :: "string \<Rightarrow> 'a option \<Rightarrow> exn + 'a" where
  "raise_ValueError_if_None msg r =
     (case r of None \<Rightarrow> Inl (Exn ValueError msg) | Some v \<Rightarrow> Inr v)"

definition py_float_call :: "'f py_float \<Rightarrow> string \<Rightarrow> exn + 'f" where
  "py_float_call F s =
     raise_ValueError_if_None ''could not convert string to float'' (float_of_str F s)"

definition py_format_call :: "'f py_float \<Rightarrow> 'f \<Rightarrow> int \<Rightarrow> exn + string" where
  "py_format_call F x d =
     raise_ValueError_if_None ''Invalid format specifier'' (format_fixed F x d)"

definition format_amount :: "'f py_float \<Rightarrow> string \<Rightarrow> int \<Rightarrow> exn + string" where
  "format_amount F amt decs =
     try_except
       (bind_exn (py_float_call F amt) (\<lambda>amount_float. py_format_call F amount_float decs))
       [ValueError, TypeError]
       (\<lambda>_. Inr ''0.0'')"

definition zero_fees :: "(string \<times> string) list" where
  "zero_fees =
     [(''total'', ''0.0''), (''platform_fee'', ''0.0''),
      (''arbiter_fee'', ''0.0''), (''net_amount'', ''0.0'')]"

text \<open>\<open>format_amount\<close> is called with its default \<open>decimals = 18\<close>.\<close>

definition calculate_fees ::
  "'f py_float \<Rightarrow> string \<Rightarrow> 'f \<Rightarrow> 'f \<Rightarrow> exn + (string \<times> string) list" where
  "calculate_fees F amt platform_fee_pct arbiter_fee_pct =
     try_except
       (bind_exn (py_float_call F amt) (\<lambda>amount_float.
          let platform_fee = fmul F amount_float (div100 F platform_fee_pct);
              arbiter_fee = fmul F amount_float (div100 F arbiter_fee_pct);
              net_amount = fsub F (fsub F amount_float platform_fee) arbiter_fee
          in bind_exn (format_amount F (str_of_float F amount_float) 18) (\<lambda>total.
             bind_exn (format_amount F (str_of_float F platform_fee) 18) (\<lambda>pf.
             bind_exn (format_amount F (str_of_float F arbiter_fee) 18) (\<lambda>af.
             bind_exn (format_amount F (str_of_float F net_amount) 18) (\<lambda>net.
               Inr [(''total'', total), (''platform_fee'', pf),
                    (''arbiter_fee'', af), (''net_amount'', net)]))))))
       [ValueError, TypeError]
       (\<lambda>_. Inr zero_fees)"

text \<open>
  The float operations restricted to the single float \<open>0.0\<close>: only \<open>"0"\<close> and \<open>"0.0"\<close> are
  read, \<open>str\<close> gives \<open>"0.0"\<close>, the fixed format gives \<open>0\<close> followed by the requested zeros,
  and the arithmetic stays at zero. On this one value each operation is what Python
  computes.
\<close>

definition zero_float :: "unit py_float" where
  "zero_float =
     \<lparr> float_of_str = (\<lambda>s. if s = ''0'' \<or> s = ''0.0'' then Some () else None),
       format_fixed = (\<lambda>_ d. if d < 0 then None
                              else Some (''0'' @ (if d = 0 then [] else ''.'' @ replicate (nat d) CHR ''0''))),
       str_of_float = (\<lambda>_. ''0.0''),
       fmul = (\<lambda>_ _. ()),
       fsub = (\<lambda>_ _. ()),
       div100 = (\<lambda>_. ()) \<rparr>"

text \<open>
  An escrow datum whose addresses, identifier, assets and terms are in order, with a
  platform fee of 60 per cent and an arbiter fee of 50 per cent.
\<close>

definition one_ether :: Asset where
  "one_ether =
     \<lparr> asset_type = ETH, address = None, amount = ''1'', chain_type = ETHEREUM,
       symbol = Some ''ETH'', decimals = 18, asset_name = None \<rparr>"

definition greedy_terms :: EscrowTerms where
  "greedy_terms =
     \<lparr> description = ''One ether against one ether'',
       deadline = 1700086400,
       auto_release_hours = None,
       dispute_window_hours = 24,
       arbiter_fee_percentage = 50,
       platform_fee_percentage = 60 \<rparr>"

definition greedy_escrow :: EscrowData where
  "greedy_escrow =
     \<lparr> escrow_id = ''escrow_1700000000_ab12cd34'',
       contract_address = None,
       status = AWAITING_DEPOSIT,
       trade_type = CRYPTO,
       buyer_address = ''0x52908400098527886E0F7030069857D2E4169EE7'',
       seller_address = ''0x8617E340B3D01FA5F11F306F4090FD50E238070D'',
       arbiter_address = ''0xde709f2102306220921060314715629080e2fb77'',
       creator_agent = ''buyer'',
       asset_a = Some one_ether,
       asset_b = Some one_ether,
       terms = Some greedy_terms,
       created_at = 1700000000,
       updated_at = 1700000000,
       deposit_tx_hash = None,
       fulfillment_tx_hash = None,
       release_tx_hash = None,
       refund_tx_hash = None,
       dispute_id = None,
       dispute_reason = None,
       dispute_evidence = [],
       frontend_callback_url = None,
       frontend_session_id = None,
       metadata = [] \<rparr>"

section \<open>The arbiter (agents/arbiter\_agent.py)\<close>

text \<open>
  \<open>len(x)\<close>: the number of items of a list, of characters of a string, of keys of a
  dictionary; \<open>TypeError\<close> on a value that has no length.
\<close>

fun py_len :: "pyval \<Rightarrow> exn + nat" where
  "py_len (PList xs) = Inr (length xs)"
| "py_len (PStr s) = Inr (length s)"
| "py_len (PDict kvs) = Inr (length (remdups (map fst kvs)))"
| "py_len _ = Inl (Exn TypeError ''object has no len()'')"

text \<open>\<open>d[k] = v\<close>: an existing key keeps its place, a new key goes last.\<close>

fun dict_set :: "pydict \<Rightarrow> string \<Rightarrow> pyval \<Rightarrow> pydict" where
  "dict_set [] k v = [(k, v)]"
| "dict_set ((k', v') # d) k v = (if k' = k then (k, v) # d else (k', v') # dict_set d k v)"

text \<open>\<open>d.get(k)\<close>, whose default is \<open>None\<close>.\<close>

definition dict_get_None :: "pydict \<Rightarrow> string \<Rightarrow> pyval" where
  "dict_get_None d k = dict_get d k PNone"

definition initial_analysis :: "pydict \<Rightarrow> pydict" where
  "initial_analysis dispute_data =
     [(''dispute_id'', dict_get_None dispute_data ''dispute_id''),
      (''parties'', PDict
         [(''buyer'', dict_get_None dispute_data ''buyer_address''),
          (''seller'', dict_get_None dispute_data ''seller_address'')]),
      (''evidence'', dict_get dispute_data ''evidence'' (PList [])),
      (''recommendation'', PStr ''REQUIRES_MORE_EVIDENCE''),
      (''confidence'', PFloat 0.5),
      (''reasoning'', PStr ''Insufficient evidence to make a decision''),
      (''required_evidence'', PList
         [PStr ''Transaction proof'',
          PStr ''Communication logs'',
          PStr ''Delivery confirmation''])]"

definition analyze_dispute :: "pydict \<Rightarrow> exn + pydict" where
  "analyze_dispute dispute_data =
     (let analysis = initial_analysis dispute_data
      in bind_exn (py_len (dict_get dispute_data ''evidence'' (PList []))) (\<lambda>evidence_count.
           if evidence_count \<ge> 3 then
             Inr (dict_set (dict_set (dict_set analysis
                    ''recommendation'' (PStr ''RELEASE_FUNDS''))
                    ''confidence'' (PFloat 0.8))
                    ''reasoning'' (PStr ''Sufficient evidence supports seller's claim''))
           else if evidence_count \<ge> 1 then
             Inr (dict_set (dict_set (dict_set analysis
                    ''recommendation'' (PStr ''REFUND_FUNDS''))
                    ''confidence'' (PFloat 0.6))
                    ''reasoning'' (PStr ''Evidence supports buyer's claim''))
           else Inr analysis))"

section \<open>The verification agent (agents/oracle\_agent.py)\<close>

subsection \<open>What the function reads from outside\<close>

text \<open>
  \<open>verify_transaction_with_ai\<close> reads the module constant \<open>ASI_ONE_API_KEY\<close>
  (\<open>os.getenv\<close>: a string or \<open>None\<close>), sends one HTTP request with \<open>requests.post\<close>, and
  decodes text with \<open>json.loads\<close>. These are inputs of the model, gathered in one record;
  \<open>str_of_value\<close> is the text an f-string writes for a value. A response carries what
  \<open>raise_for_status()\<close> raises, if anything, and what \<open>json()\<close> returns or raises.
\<close>

record http_request =
  url :: string
  headers :: pydict
  json_body :: pydict
  timeout :: int

record http_response =
  raise_for_status :: "exn option"
  json :: "exn + pyval"

record environment =
  ASI_ONE_API_KEY :: "string option"
  requests_post :: "http_request \<Rightarrow> exn + http_response"
  json_loads :: "string \<Rightarrow> exn + pyval"
  str_of_value :: "pyval \<Rightarrow> string"

definition ASI_ONE_URL :: string where
  "ASI_ONE_URL = ''https://api.asi1.ai/v1/chat/completions''"

subsection \<open>Operations on values\<close>

text \<open>\<open>x.get(k, default)\<close>: only a dictionary has the method.\<close>

fun py_get :: "pyval \<Rightarrow> string \<Rightarrow> pyval \<Rightarrow> exn + pyval" where
  "py_get (PDict d) k dflt = Inr (dict_get d k dflt)"
| "py_get _ k dflt = Inl (Exn AttributeError ''object has no attribute get'')"

text \<open>\<open>x[k]\<close> for a string key \<open>k\<close>.\<close>

fun subscript_key :: "pyval \<Rightarrow> string \<Rightarrow> exn + pyval" where
  "subscript_key (PDict d) k =
     (case map_of d k of None \<Rightarrow> Inl (Exn KeyError k) | Some v \<Rightarrow> Inr v)"
| "subscript_key (PList _) k =
     Inl (Exn TypeError ''list indices must be integers or slices, not str'')"
| "subscript_key (PStr _) k = Inl (Exn TypeError ''string indices must be integers'')"
| "subscript_key _ k = Inl (Exn TypeError ''object is not subscriptable'')"

text \<open>\<open>x[0]\<close>. The keys of a decoded JSON object are strings, so \<open>0\<close> is never one.\<close>

fun subscript_0 :: "pyval \<Rightarrow> exn + pyval" where
  "subscript_0 (PList []) = Inl (Exn IndexError ''list index out of range'')"
| "subscript_0 (PList (x # _)) = Inr x"
| "subscript_0 (PStr []) = Inl (Exn IndexError ''string index out of range'')"
| "subscript_0 (PStr (c # _)) = Inr (PStr [c])"
| "subscript_0 (PDict _) = Inl (Exn KeyError ''0'')"
| "subscript_0 _ = Inl (Exn TypeError ''object is not subscriptable'')"

text \<open>\<open>json.loads(x)\<close>: a value that is not text is refused with \<open>TypeError\<close>.\<close>

definition json_loads_call :: "environment \<Rightarrow> pyval \<Rightarrow> exn + pyval" where
  "json_loads_call W x =
     (case x of
        PStr s \<Rightarrow> json_loads W s
      | _ \<Rightarrow> Inl (Exn TypeError ''the JSON object must be str, bytes or bytearray''))"

definition raise_for_status_call :: "http_response \<Rightarrow> exn + unit" where
  "raise_for_status_call response =
     (case raise_for_status response of None \<Rightarrow> Inr () | Some e \<Rightarrow> Inl e)"

subsection \<open>The request\<close>

fun join_lines :: "string list \<Rightarrow> string" where
  "join_lines [] = []"
| "join_lines [l] = l"
| "join_lines (l # ls) = l @ CHR 0x0A # join_lines ls"

definition prompt_text ::
  "string \<Rightarrow> string \<Rightarrow> string \<Rightarrow> string \<Rightarrow> string \<Rightarrow> string \<Rightarrow> string" where
  \<open>prompt_text tx_hash amt token chain_id from_address to_address =
     join_lines
       [''Analyze this transaction for verification:'',
        ''        '',
        ''        Transaction Hash: '' @ tx_hash,
        ''        Amount: '' @ amt,
        ''        Token: '' @ token,
        ''        Chain ID: '' @ chain_id,
        ''        From: '' @ from_address,
        ''        To: '' @ to_address,
        ''        '',
        ''        Please verify:'',
        ''        1. Transaction exists on blockchain'',
        ''        2. Amount matches expected value'',
        ''        3. Token address is correct'',
        ''        4. Addresses are valid'',
        ''        5. Transaction is confirmed'',
        ''        '',
        ''        Respond with JSON:'',
        ''        {'',
        ''            "verified": true/false,'',
        ''            "confidence": 0.0-1.0,'',
        ''            "details": "explanation",'',
        ''            "block_number": 12345,'',
        ''            "gas_used": 21000'',
        ''        }'']\<close>

text \<open>
  The six values the prompt shows are looked up in order, each with the default \<open>'N/A'\<close>;
  the first lookup that raises ends the evaluation.
\<close>

definition field_text :: "environment \<Rightarrow> pyval \<Rightarrow> string \<Rightarrow> exn + string" where
  "field_text W transaction_data k =
     bind_exn (py_get transaction_data k (PStr ''N/A'')) (\<lambda>v. Inr (str_of_value W v))"

definition build_request :: "environment \<Rightarrow> string \<Rightarrow> pyval \<Rightarrow> exn + http_request" where
  "build_request W api_key transaction_data =
     (let hdrs = [(''Content-Type'', PStr ''application/json''),
                  (''Authorization'', PStr (''Bearer '' @ api_key))]
      in bind_exn (field_text W transaction_data ''transaction_hash'') (\<lambda>tx_hash.
         bind_exn (field_text W transaction_data ''amount'') (\<lambda>amt.
         bind_exn (field_text W transaction_data ''token'') (\<lambda>token.
         bind_exn (field_text W transaction_data ''chain_id'') (\<lambda>chain_id.
         bind_exn (field_text W transaction_data ''from_address'') (\<lambda>from_address.
         bind_exn (field_text W transaction_data ''to_address'') (\<lambda>to_address.
           let prompt = prompt_text tx_hash amt token chain_id from_address to_address;
               data = [(''model'', PStr ''asi1-mini''),
                       (''messages'', PList
                          [PDict [(''role'', PStr ''system''),
                                  (''content'', PStr ''You are a blockchain transaction verification expert.'')],
                           PDict [(''role'', PStr ''user''), (''content'', PStr prompt)]]),
                       (''max_tokens'', PInt 500),
                       (''temperature'', PFloat 0.1)]
           in Inr \<lparr> url = ASI_ONE_URL, headers = hdrs, json_body = data, timeout = 30 \<rparr>)))))))"

subsection \<open>The verification\<close>

text \<open>
  The statements of the \<open>try\<close> block up to \<open>ai_response\<close>: build the request, post it,
  check the status, decode the body and read \<open>result['choices'][0]['message']['content']\<close>.
\<close>

definition ai_response_of :: "environment \<Rightarrow> string \<Rightarrow> pyval \<Rightarrow> exn + pyval" where
  "ai_response_of W api_key transaction_data =
     bind_exn (build_request W api_key transaction_data) (\<lambda>request.
     bind_exn (requests_post W request) (\<lambda>response.
     bind_exn (raise_for_status_call response) (\<lambda>_.
     bind_exn (json response) (\<lambda>result.
     bind_exn (subscript_key result ''choices'') (\<lambda>choices.
     bind_exn (subscript_0 choices) (\<lambda>choice.
     bind_exn (subscript_key choice ''message'') (\<lambda>message.
     subscript_key message ''content'')))))))"

definition unverified :: "string \<Rightarrow> pyval" where
  "unverified err =
     PDict [(''verified'', PBool False), (''confidence'', PFloat 0.0), (''error'', PStr err)]"

definition verify_transaction_with_ai :: "environment \<Rightarrow> pyval \<Rightarrow> exn + pyval" where
  "verify_transaction_with_ai W transaction_data =
     (case ASI_ONE_API_KEY W of
        None \<Rightarrow> Inr (unverified ''AI service not configured'')
      | Some api_key \<Rightarrow>
          if api_key = [] then Inr (unverified ''AI service not configured'')
          else
            try_except_Exception
              (bind_exn (ai_response_of W api_key transaction_data) (\<lambda>ai_response.
                 try_except (json_loads_call W ai_response) [JSONDecodeError]
                   (\<lambda>_. Inr (unverified ''Failed to parse AI response''))))
              (\<lambda>e. Inr (unverified (str_of_exn e))))"

text \<open>
  The result reports a failed verification: a dictionary whose \<open>verified\<close> is \<open>False\<close> and
  whose \<open>confidence\<close> is \<open>0.0\<close>.
\<close>

definition reports_unverified :: "pyval \<Rightarrow> bool" where
  "reports_unverified v =
     (case v of
        PDict d \<Rightarrow> map_of d ''verified'' = Some (PBool False)
                  \<and> map_of d ''confidence'' = Some (PFloat 0)
      | _ \<Rightarrow> False)"

text \<open>
  An environment in which the key is set and every request times out. Its f-strings
  write a string as it is and elide any other value.
\<close>

definition unreachable_service :: environment where
  "unreachable_service =
     \<lparr> ASI_ONE_API_KEY = Some ''secret'',
       requests_post = (\<lambda>_. Inl (Exn RequestException ''Read timed out.'')),
       json_loads = (\<lambda>_. Inl (Exn JSONDecodeError ''Expecting value'')),
       str_of_value = (\<lambda>v. case v of PStr s \<Rightarrow> s | _ \<Rightarrow> ''...'') \<rparr>"

section \<open>The escrow registry\<close>

text \<open>
  Modelled from the spec: the repository declares the states of an escrow
  (\<open>EscrowState\<close> in shared/models.py) and the escrow data, but has no registry and no function
  that changes the status of an escrow. The commands, their guards and their effects
  below follow the operations of section 4.1 of the specification (deposit,
  confirmFulfillment, raiseDispute, resolveDispute); \<open>Cancel\<close> stands for the edge from
  AWAITING\_DEPOSIT to CANCELED (timeout or withdrawal) that the section gives without
  naming an operation. A transaction proof is well formed when
  \<open>validate_transaction_hash\<close> accepts it.
\<close>

text \<open>Modelled from the spec: the error taxonomy of section 7 that the registry returns.\<close>

datatype registry_error =
    ValidationError "string list"
  | InvalidStateError
  | NotFoundError

text \<open>Modelled from the spec: the decision of a dispute, release or refund.\<close>

datatype resolution = Release | Refund

text \<open>
  Modelled from the spec: the commands that act on an existing escrow, with their
  payloads (the deposited asset and its optional transaction proof; the reason and the
  evidence of a dispute; the decision that resolves it).
\<close>

datatype command =
    Deposit Asset "string option"
  | ConfirmFulfillment
  | RaiseDispute string "pydict list"
  | ResolveDispute resolution
  | Cancel

text \<open>
  Modelled from the spec: the registry owns the escrows and the dispute records, each
  under its identifier.
\<close>

record registry =
  escrows :: "string \<rightharpoonup> EscrowData"
  disputes :: "string \<rightharpoonup> DisputeRecord"

text \<open>
  Modelled from the spec: a deposit needs a transaction proof when the trade is on chain,
  that is, for every trade type but fiat-p2p.
\<close>

definition on_chain :: "TradeType \<Rightarrow> bool" where
  "on_chain t = (t = CRYPTO \<or> t = CROSS_CHAIN)"

text \<open>
  Modelled from the spec: the guarded transition of one escrow, a function of the current
  status, the command and its payload. \<open>now\<close> is the time of the call, \<open>fresh\<close> the
  identifier drawn for a new dispute and \<open>who\<close> the party that sent the command. The
  result is the updated escrow and, for a dispute command, the dispute record to store.
  The specification names no field for the release that a confirmed fulfilment marks:
  the status COMPLETED is the mark.
\<close>

fun transition ::
  "int \<Rightarrow> string \<Rightarrow> string \<Rightarrow> (string \<rightharpoonup> DisputeRecord) \<Rightarrow> EscrowData \<Rightarrow> command
     \<Rightarrow> registry_error + EscrowData \<times> DisputeRecord option" where
  "transition now fresh who ds e (Deposit a proof) =
     (if status e \<noteq> AWAITING_DEPOSIT then Inl InvalidStateError
      else if on_chain (trade_type e)
              \<and> (case proof of None \<Rightarrow> True | Some h \<Rightarrow> \<not> validate_transaction_hash h)
      then Inl (ValidationError [''Invalid transaction proof''])
      else Inr (e\<lparr>status := AWAITING_FULFILLMENT, deposit_tx_hash := proof,
                   updated_at := now\<rparr>, None))"
| "transition now fresh who ds e ConfirmFulfillment =
     (if status e \<noteq> AWAITING_FULFILLMENT then Inl InvalidStateError
      else Inr (e\<lparr>status := COMPLETED, updated_at := now\<rparr>, None))"
| "transition now fresh who ds e (RaiseDispute why ev) =
     (if status e \<noteq> AWAITING_DEPOSIT \<and> status e \<noteq> AWAITING_FULFILLMENT
      then Inl InvalidStateError
      else Inr (e\<lparr>status := DISPUTE_RAISED, dispute_id := Some fresh,
                   dispute_reason := Some why, dispute_evidence := ev, updated_at := now\<rparr>,
                Some \<lparr>rec_dispute_id = fresh, rec_escrow_id = escrow_id e,
                      disputing_party = who, reason = why, evidence = ev,
                      rec_status = ''open'', rec_arbiter_address = arbiter_address e,
                      rec_created_at = now, resolved_at = None, decision = None,
                      arbiter_reasoning = None\<rparr>))"
| "transition now fresh who ds e (ResolveDispute d) =
     (if status e \<noteq> DISPUTE_RAISED then Inl InvalidStateError
      else case dispute_id e of
        None \<Rightarrow> Inl InvalidStateError
      | Some i \<Rightarrow>
          (case ds i of
             None \<Rightarrow> Inl InvalidStateError
           | Some r \<Rightarrow>
               if rec_status r = ''resolved'' then Inl InvalidStateError
               else Inr (e\<lparr>status := (case d of Release \<Rightarrow> COMPLETED | Refund \<Rightarrow> CANCELED),
                            updated_at := now\<rparr>,
                         Some (r\<lparr>rec_status := ''resolved'', resolved_at := Some now,
                                 decision := Some (case d of Release \<Rightarrow> ''release''
                                                   | Refund \<Rightarrow> ''refund'')\<rparr>))))"
| "transition now fresh who ds e Cancel =
     (if status e \<noteq> AWAITING_DEPOSIT then Inl InvalidStateError
      else Inr (e\<lparr>status := CANCELED, updated_at := now\<rparr>, None))"

text \<open>
  Modelled from the spec: the registry applies a command to the escrow with the given
  identifier. It answers with the error, if any, and the registry after the command; an
  error leaves the registry as it was.
\<close>

definition handle_command ::
  "int \<Rightarrow> string \<Rightarrow> string \<Rightarrow> registry \<Rightarrow> string \<Rightarrow> command
     \<Rightarrow> registry_error option \<times> registry" where
  "handle_command now fresh who R eid c =
     (case escrows R eid of
        None \<Rightarrow> (Some NotFoundError, R)
      | Some e \<Rightarrow>
          (case transition now fresh who (disputes R) e c of
             Inl err \<Rightarrow> (Some err, R)
           | Inr (e', rec) \<Rightarrow>
               (None,
                R\<lparr>escrows := (escrows R)(eid \<mapsto> e'),
                  disputes := (case rec of
                                 None \<Rightarrow> disputes R
                               | Some r \<Rightarrow> (disputes R)(rec_dispute_id r \<mapsto> r))\<rparr>)))"

text \<open>
  Modelled from the spec: the transition graph as the specification draws it, which the
  repository does not hold either: AWAITING\_DEPOSIT to
  AWAITING\_FULFILLMENT to COMPLETED, DISPUTE\_RAISED reachable from the first two and
  resolving to COMPLETED (release) or CANCELED (refund), CANCELED reachable from
  AWAITING\_DEPOSIT. A command is legal for a status when the graph has an edge that
  leaves the status under the command.
\<close>

datatype edge_label =
    ByDeposit | ByConfirmFulfillment | ByRaiseDispute | ByRelease | ByRefund | ByCancel

definition status_graph :: "(EscrowState \<times> edge_label \<times> EscrowState) list" where
  "status_graph =
     [(AWAITING_DEPOSIT, ByDeposit, AWAITING_FULFILLMENT),
      (AWAITING_FULFILLMENT, ByConfirmFulfillment, COMPLETED),
      (AWAITING_DEPOSIT, ByRaiseDispute, DISPUTE_RAISED),
      (AWAITING_FULFILLMENT, ByRaiseDispute, DISPUTE_RAISED),
      (DISPUTE_RAISED, ByRelease, COMPLETED),
      (DISPUTE_RAISED, ByRefund, CANCELED),
      (AWAITING_DEPOSIT, ByCancel, CANCELED)]"

fun label_of :: "command \<Rightarrow> edge_label" where
  "label_of (Deposit _ _) = ByDeposit"
| "label_of ConfirmFulfillment = ByConfirmFulfillment"
| "label_of (RaiseDispute _ _) = ByRaiseDispute"
| "label_of (ResolveDispute Release) = ByRelease"
| "label_of (ResolveDispute Refund) = ByRefund"
| "label_of Cancel = ByCancel"

definition legal :: "EscrowState \<Rightarrow> command \<Rightarrow> bool" where
  "legal s c = list_ex (\<lambda>(s', l, _). s' = s \<and> l = label_of c) status_graph"

text \<open>An escrow that awaits its deposit, held in a registry with no dispute.\<close>

definition fresh_escrow :: EscrowData where
  "fresh_escrow =
     \<lparr> escrow_id = ''escrow_1700000000_ab12cd34'',
       contract_address = None,
       status = AWAITING_DEPOSIT,
       trade_type = CRYPTO,
       buyer_address = ''0x52908400098527886E0F7030069857D2E4169EE7'',
       seller_address = ''0x8617E340B3D01FA5F11F306F4090FD50E238070D'',
       arbiter_address = ''0xde709f2102306220921060314715629080e2fb77'',
       creator_agent = ''buyer'',
       asset_a = None,
       asset_b = None,
       terms = None,
       created_at = 1700000000,
       updated_at = 1700000000,
       deposit_tx_hash = None,
       fulfillment_tx_hash = None,
       release_tx_hash = None,
       refund_tx_hash = None,
       dispute_id = None,
       dispute_reason = None,
       dispute_evidence = [],
       frontend_callback_url = None,
       frontend_session_id = None,
       metadata = [] \<rparr>"

definition one_escrow_registry :: registry where
  "one_escrow_registry =
     \<lparr> escrows = [escrow_id fresh_escrow \<mapsto> fresh_escrow],
       disputes = Map.empty \<rparr>"

section \<open>Properties of the protocol\<close>

lemmas EscrowMessageTypes_defs =
  CREATE_ESCROW_def ESCROW_CREATED_def DEPOSIT_REQUEST_def DEPOSIT_CONFIRMED_def
  FULFILLMENT_REQUEST_def FULFILLMENT_CONFIRMED_def RELEASE_REQUEST_def REFUND_REQUEST_def
  DISPUTE_RAISED_MSG_def DISPUTE_RESOLVED_def STATUS_UPDATE_def ORACLE_VERIFICATION_def
  ORACLE_RESPONSE_def HEARTBEAT_def ERROR_def SUCCESS_def

lemmas constructor_defs =
  create_escrow_message_def create_deposit_message_def create_fulfillment_message_def
  create_dispute_message_def create_oracle_verification_message_def
  create_status_update_message_def create_error_message_def create_success_message_def
  create_heartbeat_message_def create_acknowledgement_message_def
  create_response_message_def

lemma dict_mem_iff_dom: "dict_mem k d \<longleftrightarrow> k \<in> dom (map_of d)"
  by (auto simp: dict_mem_def)

text \<open>
  C7. For every message dictionary \<open>m\<close>, \<open>validate_message m\<close> is true exactly when the four
  fields \<open>type\<close>, \<open>timestamp\<close>, \<open>msg_id\<close> and \<open>data\<close> are all keys of \<open>m\<close>.
\<close>

theorem validate_message_iff_all_four_keys:
  "validate_message m \<longleftrightarrow>
     {''type'', ''timestamp'', ''msg_id'', ''data''} \<subseteq> dom (map_of m)"
  by (simp add: validate_message_def required_fields_def dict_mem_iff_dom)

theorem validate_message_iff_all_four_keys_witness:
  "validate_message [(''type'', PStr ''heartbeat''), (''timestamp'', PStr ''t''),
                     (''msg_id'', PStr ''1''), (''data'', PDict [])]
   \<and> \<not> validate_message [(''type'', PStr ''heartbeat''), (''timestamp'', PStr ''t''),
                     (''data'', PDict [])]"
  using validate_message_iff_all_four_keys
          [of "[(''type'', PStr ''heartbeat''), (''timestamp'', PStr ''t''),
                (''msg_id'', PStr ''1''), (''data'', PDict [])]"]
        validate_message_iff_all_four_keys
          [of "[(''type'', PStr ''heartbeat''), (''timestamp'', PStr ''t''),
                (''data'', PDict [])]"]
  by simp

text \<open>
  C8. Every envelope a constructor of the protocol builds is the four-field dictionary
  of a type tag \<open>t\<close>, the timestamp and the identifier of the call, and a payload \<open>d\<close>;
  decoding it recovers both: \<open>parse_message_type\<close> returns \<open>t\<close> and \<open>parse_message_data\<close>
  returns \<open>d\<close>, unchanged. For \<open>create_escrow_message\<close> the tag is \<open>create_escrow\<close> and the
  payload is the dictionary the caller passed.
\<close>

theorem envelope_round_trip:
  "(\<exists>t d. construct ts mid c =
             [(''type'', PStr t), (''timestamp'', PStr ts), (''msg_id'', PStr mid),
              (''data'', PDict d)]
          \<and> parse_message_type (construct ts mid c) = PStr t
          \<and> parse_message_data (construct ts mid c) = PDict d)
   \<and> parse_message_type (create_escrow_message ts mid escrow_data) = PStr ''create_escrow''
   \<and> parse_message_data (create_escrow_message ts mid escrow_data) = PDict escrow_data"
proof -
  have "\<exists>t d. construct ts mid c =
             [(''type'', PStr t), (''timestamp'', PStr ts), (''msg_id'', PStr mid),
              (''data'', PDict d)]
          \<and> parse_message_type (construct ts mid c) = PStr t
          \<and> parse_message_data (construct ts mid c) = PDict d"
    by (cases c)
       (simp_all add: constructor_defs parse_message_type_def parse_message_data_def
          dict_get_def)
  moreover have
    "parse_message_type (create_escrow_message ts mid escrow_data) = PStr ''create_escrow''"
    "parse_message_data (create_escrow_message ts mid escrow_data) = PDict escrow_data"
    by (simp_all add: create_escrow_message_def CREATE_ESCROW_def parse_message_type_def
          parse_message_data_def dict_get_def)
  ultimately show ?thesis by blast
qed

theorem envelope_round_trip_witness:
  "parse_message_type
     (create_status_update_message ''2024-01-01T00:00:00+00:00'' ''id-1''
        ''escrow_1'' ''AWAITING_DEPOSIT'' ''AWAITING_FULFILLMENT'' ''deposit seen'')
     = PStr ''status_update''
   \<and> parse_message_data
     (create_status_update_message ''2024-01-01T00:00:00+00:00'' ''id-1''
        ''escrow_1'' ''AWAITING_DEPOSIT'' ''AWAITING_FULFILLMENT'' ''deposit seen'')
     = PDict [(''escrow_id'', PStr ''escrow_1''),
              (''old_status'', PStr ''AWAITING_DEPOSIT''),
              (''new_status'', PStr ''AWAITING_FULFILLMENT''),
              (''reason'', PStr ''deposit seen'')]"
  using envelope_round_trip
          [of "''2024-01-01T00:00:00+00:00''" "''id-1''"
              "CreateStatusUpdateMessage ''escrow_1'' ''AWAITING_DEPOSIT''
                 ''AWAITING_FULFILLMENT'' ''deposit seen''"]
  by (auto simp: create_status_update_message_def STATUS_UPDATE_def)

text \<open>
  The response constructor takes its type tag from the caller, so the tag need not be in
  the catalogue: a response of type \<open>pong\<close> carries a tag that
  \<open>SUPPORTED_MESSAGE_TYPES\<close> does not list.
\<close>

theorem response_tag_counterexample:
  "parse_message_type
     (construct ''2024-01-01T00:00:00+00:00'' ''id-2''
        (CreateResponseMessage ''id-1'' ''pong'' [])) = PStr ''pong''
   \<and> ''pong'' \<notin> set SUPPORTED_MESSAGE_TYPES"
  by (simp add: create_response_message_def parse_message_type_def dict_get_def
      SUPPORTED_MESSAGE_TYPES_def EscrowMessageTypes_defs)

text \<open>
  C10, as the code has it. Every envelope built by a constructor of the module holds the
  four required fields and passes \<open>validate_message\<close>. The type tag of every constructor
  other than the acknowledgement and the response is a member of
  \<open>SUPPORTED_MESSAGE_TYPES\<close>; the tag of a response is the \<open>response_type\<close> of the caller.
\<close>

theorem constructed_envelopes_valid:
  "validate_message (construct ts mid c)
   \<and> (\<not> is_acknowledgement c \<and> \<not> is_response c \<longrightarrow>
         (\<exists>t. parse_message_type (construct ts mid c) = PStr t
              \<and> t \<in> set SUPPORTED_MESSAGE_TYPES))
   \<and> (\<forall>i t d. c = CreateResponseMessage i t d \<longrightarrow>
         parse_message_type (construct ts mid c) = PStr t)"
  by (cases c)
     (simp_all add: constructor_defs validate_message_def required_fields_def dict_mem_def
        parse_message_type_def dict_get_def SUPPORTED_MESSAGE_TYPES_def)

theorem constructed_envelopes_valid_witness:
  "validate_message
     (create_heartbeat_message ''2024-01-01T00:00:00+00:00'' ''id-3'' 1704067200
        ''buyer'' ''active'')
   \<and> parse_message_type
     (create_heartbeat_message ''2024-01-01T00:00:00+00:00'' ''id-3'' 1704067200
        ''buyer'' ''active'') = PStr ''heartbeat''
   \<and> ''heartbeat'' \<in> set SUPPORTED_MESSAGE_TYPES"
  using constructed_envelopes_valid
          [of "''2024-01-01T00:00:00+00:00''" "''id-3''"
              "CreateHeartbeatMessage 1704067200 ''buyer'' ''active''"]
  by (auto simp: create_heartbeat_message_def HEARTBEAT_def parse_message_type_def
        dict_get_def)

section \<open>Properties of the shared utilities\<close>

subsection \<open>Address and transaction-hash validation\<close>

lemma hex_digit_cases:
  "hex_digit c \<Longrightarrow>
     \<not> py_isspace c \<and> c \<noteq> CHR ''+'' \<and> c \<noteq> CHR ''-'' \<and> c \<noteq> CHR ''_''
     \<and> c \<noteq> CHR ''x'' \<and> c \<noteq> CHR ''X'' \<and> digit_or_underscore c"
  by (auto simp: hex_digit_def py_isspace_def digit_or_underscore_def)

lemma no_double_underscore_hex: "list_all hex_digit ds \<Longrightarrow> no_double_underscore ds"
  by (induction ds rule: no_double_underscore.induct) (auto dest: hex_digit_cases)

lemma strip_base16_prefix_hex: "list_all hex_digit ds \<Longrightarrow> strip_base16_prefix ds = ds"
  by (auto simp: strip_base16_prefix_def split: list.splits dest: hex_digit_cases)

lemma takeWhile_hex: "list_all hex_digit ds \<Longrightarrow> takeWhile digit_or_underscore ds = ds"
  by (induction ds) (auto dest: hex_digit_cases)

lemma dropWhile_hex: "list_all hex_digit ds \<Longrightarrow> dropWhile digit_or_underscore ds = []"
  by (induction ds) (auto dest: hex_digit_cases)

text \<open>\<open>int(s, 16)\<close> returns on every non-empty string of hexadecimal digits.\<close>

lemma int16_returns_hex:
  assumes "list_all hex_digit ds" and "ds \<noteq> []"
  shows "int16_returns ds"
proof -
  obtain c r where ds: "ds = c # r" using assms(2) by (cases ds) auto
  have c: "hex_digit c" using assms(1) ds by simp
  have s1: "dropWhile py_isspace ds = ds" using c ds by (simp add: hex_digit_cases)
  have s2: "strip_sign ds = ds" using c ds by (simp add: strip_sign_def hex_digit_cases)
  have l: "hex_digit (last ds)" using assms by (simp add: list_all_iff)
  have h: "hd ds \<noteq> CHR ''_''" using c ds by (simp add: hex_digit_cases)
  have l': "last ds \<noteq> CHR ''_''" using l by (simp add: hex_digit_cases)
  show ?thesis
    unfolding int16_returns_def Let_def s1 s2 strip_base16_prefix_hex[OF assms(1)]
      takeWhile_hex[OF assms(1)] dropWhile_hex[OF assms(1)]
    using assms(2) h l' no_double_underscore_hex[OF assms(1)] by simp
qed

text \<open>
  One direction of the documented format holds: the validators accept every string
  made of \<open>0x\<close> and the right number of hexadecimal characters.
\<close>

lemma validate_address_accepts_0x_hex: "is_0x_hex 40 s \<Longrightarrow> validate_address s"
  unfolding is_0x_hex_def validate_address_def startswith_def
  by (auto simp: numeral_2_eq_2[symmetric] simp del: One_nat_def intro!: int16_returns_hex)

lemma validate_transaction_hash_accepts_0x_hex:
  "is_0x_hex 64 s \<Longrightarrow> validate_transaction_hash s"
  unfolding is_0x_hex_def validate_transaction_hash_def startswith_def
  by (auto simp: numeral_2_eq_2[symmetric] simp del: One_nat_def intro!: int16_returns_hex)

text \<open>
  C3. The other direction fails. The validators hand the characters after \<open>0x\<close> to
  \<open>int(..., 16)\<close>, which also reads a second \<open>0x\<close> prefix, a sign, surrounding whitespace
  and underscores between digits. \<open>validate_address\<close> accepts the 42-character string
  \<open>0x0x\<close> followed by 38 zeros, and \<open>validate_transaction_hash\<close> accepts the 66-character
  string \<open>0x+\<close> followed by 63 zeros; neither is \<open>0x\<close> followed by hexadecimal characters
  only.
\<close>

theorem validators_accept_malformed:
  "validate_address ''0x0x00000000000000000000000000000000000000''
   \<and> \<not> is_0x_hex 40 ''0x0x00000000000000000000000000000000000000''
   \<and> validate_transaction_hash
       ''0x+000000000000000000000000000000000000000000000000000000000000000''
   \<and> \<not> is_0x_hex 64
       ''0x+000000000000000000000000000000000000000000000000000000000000000''"
  by (simp add: validate_address_def validate_transaction_hash_def is_0x_hex_def
      startswith_def int16_returns_def py_isspace_def strip_sign_def
      strip_base16_prefix_def digit_or_underscore_def hex_digit_def)

subsection \<open>Validation of escrow data\<close>

lemma greedy_escrow_accepted: "validate_escrow_data 1700000000 greedy_escrow = []"
  by (simp add: greedy_terms_def greedy_escrow_def one_ether_def validate_escrow_data_def
      asset_missing_def validate_address_def startswith_def int16_returns_def py_isspace_def
      strip_sign_def strip_base16_prefix_def digit_or_underscore_def hex_digit_def)

text \<open>
  An escrow datum whose fees add up to 110 per cent passes the validation: the error
  list is empty.
\<close>

theorem fee_split_not_checked_counterexample:
  "platform_fee_percentage greedy_terms + arbiter_fee_percentage greedy_terms \<ge> 100
   \<and> terms greedy_escrow = Some greedy_terms
   \<and> validate_escrow_data 1700000000 greedy_escrow = []"
  using greedy_escrow_accepted by (simp add: greedy_terms_def greedy_escrow_def)

text \<open>
  C6, as the code has it. \<open>validate_escrow_data\<close> does not look at the fee percentages:
  whatever values the platform fee and the arbiter fee of the terms take, the list of
  errors is the same. It checks the three addresses, the identifier, the two assets, the
  description and the deadline, and nothing else.
\<close>

theorem validate_escrow_data_ignores_fees:
  "validate_escrow_data now
     (e\<lparr>terms := map_option
                    (\<lambda>t. t\<lparr>arbiter_fee_percentage := a, platform_fee_percentage := p\<rparr>)
                    (terms e)\<rparr>)
   = validate_escrow_data now e"
  by (cases "terms e") (simp_all add: validate_escrow_data_def)

theorem validate_escrow_data_ignores_fees_witness:
  "validate_escrow_data 1700000000
     (greedy_escrow\<lparr>terms := Some (greedy_terms\<lparr>arbiter_fee_percentage := 1,
                                                platform_fee_percentage := 0.5\<rparr>)\<rparr>) = []"
  using validate_escrow_data_ignores_fees
          [where now = 1700000000 and e = greedy_escrow and a = 1 and p = "0.5"]
        greedy_escrow_accepted
  by (simp add: greedy_escrow_def)

subsection \<open>Amounts that do not parse\<close>

lemma format_amount_returns: "\<exists>r. format_amount F s d = Inr r"
  by (auto simp: format_amount_def try_except_def bind_exn_def py_float_call_def
      py_format_call_def raise_ValueError_if_None_def split: option.splits)

lemma format_amount_unparsed:
  "float_of_str F s = None \<Longrightarrow> format_amount F s d = Inr ''0.0''"
  by (simp add: format_amount_def try_except_def bind_exn_def py_float_call_def
      raise_ValueError_if_None_def)

lemma calculate_fees_unparsed:
  "float_of_str F s = None \<Longrightarrow> calculate_fees F s p a = Inr zero_fees"
  by (simp add: calculate_fees_def try_except_def bind_exn_def py_float_call_def
      raise_ValueError_if_None_def)

lemma calculate_fees_returns: "\<exists>r. calculate_fees F s p a = Inr r"
proof (cases "float_of_str F s")
  case None
  then show ?thesis by (simp add: calculate_fees_unparsed)
next
  case (Some x)
  obtain t where t: "format_amount F (str_of_float F x) 18 = Inr t"
    using format_amount_returns by blast
  obtain pf where pf: "format_amount F (str_of_float F (fmul F x (div100 F p))) 18 = Inr pf"
    using format_amount_returns by blast
  obtain af where af: "format_amount F (str_of_float F (fmul F x (div100 F a))) 18 = Inr af"
    using format_amount_returns by blast
  obtain net where net:
    "format_amount F (str_of_float F
        (fsub F (fsub F x (fmul F x (div100 F p))) (fmul F x (div100 F a)))) 18 = Inr net"
    using format_amount_returns by blast
  show ?thesis
    using Some t pf af net
    by (simp add: calculate_fees_def try_except_def bind_exn_def py_float_call_def
        raise_ValueError_if_None_def Let_def)
qed

text \<open>
  C5. When the amount string does not parse as a number, \<open>format_amount\<close> returns the
  literal \<open>0.0\<close> and \<open>calculate_fees\<close> returns the result whose four entries are \<open>0.0\<close>.
  Neither function raises, whatever the string, the number of decimals and the
  percentages.
\<close>

theorem invalid_amount_yields_zero:
  "(float_of_str F s = None \<longrightarrow>
      format_amount F s d = Inr ''0.0'' \<and> calculate_fees F s p a = Inr zero_fees)
   \<and> (\<exists>r. format_amount F s d = Inr r)
   \<and> (\<exists>r. calculate_fees F s p a = Inr r)"
  using format_amount_returns[of F s d] calculate_fees_returns[of F s p a]
  by (simp add: format_amount_unparsed calculate_fees_unparsed)

theorem invalid_amount_yields_zero_witness:
  "float_of_str zero_float ''ten'' = None
   \<and> format_amount zero_float ''ten'' 18 = Inr ''0.0''
   \<and> calculate_fees zero_float ''ten'' () () = Inr zero_fees"
  using invalid_amount_yields_zero[of zero_float "''ten''" 18 "()" "()"]
  by (simp add: zero_float_def)

section \<open>Properties of the arbiter\<close>

lemma map_of_dict_set:
  "map_of (dict_set d k v) k' = (if k' = k then Some v else map_of d k')"
  by (induction d) auto

lemma analyze_dispute_fields:
  assumes "py_len (dict_get d ''evidence'' (PList [])) = Inr n"
  shows "\<exists>a. analyze_dispute d = Inr a
           \<and> map_of a ''recommendation'' =
               Some (PStr (if n = 0 then ''REQUIRES_MORE_EVIDENCE''
                           else if n \<le> 2 then ''REFUND_FUNDS'' else ''RELEASE_FUNDS''))
           \<and> map_of a ''confidence'' =
               Some (PFloat (if n = 0 then 0.5 else if n \<le> 2 then 0.6 else 0.8))"
  using assms
  by (auto simp: analyze_dispute_def bind_exn_def map_of_dict_set initial_analysis_def)

text \<open>
  C2. With \<open>n\<close> the number of evidence items of a dispute, \<open>analyze_dispute\<close> returns an
  analysis whose recommendation and confidence are fixed by \<open>n\<close> alone:
  \<open>REQUIRES_MORE_EVIDENCE\<close> and 0.5 for no item, \<open>REFUND_FUNDS\<close> and 0.6 for one or two
  items, \<open>RELEASE_FUNDS\<close> and 0.8 for three or more. What the items contain plays no part.
\<close>

theorem analyze_dispute_by_evidence_count:
  assumes "py_len (dict_get d ''evidence'' (PList [])) = Inr n"
  shows "\<exists>a. analyze_dispute d = Inr a
           \<and> map_of a ''recommendation'' =
               Some (PStr (if n = 0 then ''REQUIRES_MORE_EVIDENCE''
                           else if n \<le> 2 then ''REFUND_FUNDS'' else ''RELEASE_FUNDS''))
           \<and> map_of a ''confidence'' =
               Some (PFloat (if n = 0 then 0.5 else if n \<le> 2 then 0.6 else 0.8))"
  using assms by (rule analyze_dispute_fields)

theorem analyze_dispute_by_evidence_count_witness:
  "py_len (dict_get [(''dispute_id'', PStr ''dispute_1''),
                     (''evidence'', PList [PStr ''receipt'', PStr ''chat log''])]
             ''evidence'' (PList [])) = Inr 2
   \<and> (\<exists>a. analyze_dispute [(''dispute_id'', PStr ''dispute_1''),
                            (''evidence'', PList [PStr ''receipt'', PStr ''chat log''])] = Inr a
          \<and> map_of a ''recommendation'' = Some (PStr ''REFUND_FUNDS'')
          \<and> map_of a ''confidence'' = Some (PFloat 0.6))"
proof -
  have h: "py_len (dict_get [(''dispute_id'', PStr ''dispute_1''),
                     (''evidence'', PList [PStr ''receipt'', PStr ''chat log''])]
             ''evidence'' (PList [])) = Inr 2"
    by (simp add: dict_get_def)
  show ?thesis
    using h analyze_dispute_by_evidence_count[OF h] by simp
qed

text \<open>
  Two disputes with the same number of evidence items get the same recommendation and
  the same confidence, whatever else they hold.
\<close>

lemma analyze_dispute_content_independent:
  assumes "py_len (dict_get d ''evidence'' (PList [])) = Inr n"
    and "py_len (dict_get d' ''evidence'' (PList [])) = Inr n"
  shows "\<exists>a a'. analyze_dispute d = Inr a \<and> analyze_dispute d' = Inr a'
           \<and> map_of a ''recommendation'' = map_of a' ''recommendation''
           \<and> map_of a ''confidence'' = map_of a' ''confidence''"
proof -
  obtain a where a: "analyze_dispute d = Inr a"
    "map_of a ''recommendation'' =
       Some (PStr (if n = 0 then ''REQUIRES_MORE_EVIDENCE''
                   else if n \<le> 2 then ''REFUND_FUNDS'' else ''RELEASE_FUNDS''))"
    "map_of a ''confidence'' = Some (PFloat (if n = 0 then 0.5 else if n \<le> 2 then 0.6 else 0.8))"
    using analyze_dispute_fields[OF assms(1)] by blast
  obtain a' where a': "analyze_dispute d' = Inr a'"
    "map_of a' ''recommendation'' =
       Some (PStr (if n = 0 then ''REQUIRES_MORE_EVIDENCE''
                   else if n \<le> 2 then ''REFUND_FUNDS'' else ''RELEASE_FUNDS''))"
    "map_of a' ''confidence'' = Some (PFloat (if n = 0 then 0.5 else if n \<le> 2 then 0.6 else 0.8))"
    using analyze_dispute_fields[OF assms(2)] by blast
  show ?thesis using a a' by simp
qed

section \<open>Properties of the verification agent\<close>

lemma reports_unverified_unverified: "reports_unverified (unverified msg)"
  by (simp add: reports_unverified_def unverified_def)

text \<open>
  C9. \<open>verify_transaction_with_ai\<close> always returns. When the API key is not configured
  (unset or empty), when anything raises on the way to the text of the answer (building
  or posting the request, the status check, decoding the body, reading
  \<open>choices[0].message.content\<close>), or when that text does not decode as JSON, the result is a
  dictionary with \<open>verified = False\<close> and \<open>confidence = 0.0\<close>. Otherwise the result is the
  decoded answer.
\<close>

theorem verification_failure_is_reported:
  "\<exists>v. verify_transaction_with_ai W td = Inr v
       \<and> ((ASI_ONE_API_KEY W = None \<or> ASI_ONE_API_KEY W = Some [])
            \<longrightarrow> reports_unverified v)
       \<and> (\<forall>k. ASI_ONE_API_KEY W = Some k \<and> k \<noteq> [] \<longrightarrow>
             (case ai_response_of W k td of
                Inl e \<Rightarrow> reports_unverified v
              | Inr content \<Rightarrow>
                  (case json_loads_call W content of
                     Inl e \<Rightarrow> reports_unverified v
                   | Inr parsed \<Rightarrow> v = parsed)))"
  by (auto simp: verify_transaction_with_ai_def try_except_Exception_def try_except_def
      bind_exn_def reports_unverified_unverified split: option.splits sum.splits)

theorem verification_failure_is_reported_witness:
  "ai_response_of unreachable_service ''secret''
     (PDict [(''transaction_hash'', PStr ''0xabc'')])
     = Inl (Exn RequestException ''Read timed out.'')
   \<and> verify_transaction_with_ai unreachable_service
     (PDict [(''transaction_hash'', PStr ''0xabc'')])
     = Inr (PDict [(''verified'', PBool False), (''confidence'', PFloat 0.0),
                   (''error'', PStr ''Read timed out.'')])"
  using verification_failure_is_reported
          [of unreachable_service "PDict [(''transaction_hash'', PStr ''0xabc'')]"]
  by (simp add: unreachable_service_def verify_transaction_with_ai_def ai_response_of_def
      build_request_def field_text_def bind_exn_def dict_get_def try_except_Exception_def
      unverified_def)

section \<open>Properties of the escrow registry\<close>

lemma legal_cases:
  "legal s c \<longleftrightarrow>
     (case c of
        Deposit _ _ \<Rightarrow> s = AWAITING_DEPOSIT
      | ConfirmFulfillment \<Rightarrow> s = AWAITING_FULFILLMENT
      | RaiseDispute _ _ \<Rightarrow> s = AWAITING_DEPOSIT \<or> s = AWAITING_FULFILLMENT
      | ResolveDispute _ \<Rightarrow> s = DISPUTE_RAISED
      | Cancel \<Rightarrow> s = AWAITING_DEPOSIT)"
proof (cases c)
  case (ResolveDispute d)
  then show ?thesis by (cases d) (auto simp: legal_def status_graph_def)
qed (auto simp: legal_def status_graph_def)

lemma transition_illegal:
  "\<not> legal (status e) c \<Longrightarrow> transition now fresh who ds e c = Inl InvalidStateError"
  by (cases c) (auto simp: legal_cases)

text \<open>A command that succeeds moves the escrow along an edge of the graph.\<close>

lemma transition_follows_graph:
  "transition now fresh who ds e c = Inr (e', r) \<Longrightarrow>
     (status e, label_of c, status e') \<in> set status_graph"
  by (cases c) (auto simp: status_graph_def split: if_splits option.splits resolution.splits)

text \<open>
  C1. For every escrow of the registry and every command that the transition graph does
  not allow in the current status of the escrow, the registry answers
  \<open>InvalidStateError\<close> and is left exactly as it was: the status of the escrow, and
  everything else, is unchanged.
\<close>

theorem illegal_command_rejected:
  assumes "escrows R eid = Some e" and "\<not> legal (status e) c"
  shows "handle_command now fresh who R eid c = (Some InvalidStateError, R)"
  using assms by (simp add: handle_command_def transition_illegal)

theorem illegal_command_rejected_witness:
  "escrows one_escrow_registry ''escrow_1700000000_ab12cd34'' = Some fresh_escrow
   \<and> \<not> legal (status fresh_escrow) ConfirmFulfillment
   \<and> handle_command 1700000100 ''dispute_1'' ''buyer'' one_escrow_registry
        ''escrow_1700000000_ab12cd34'' ConfirmFulfillment
      = (Some InvalidStateError, one_escrow_registry)"
proof -
  have a: "escrows one_escrow_registry ''escrow_1700000000_ab12cd34'' = Some fresh_escrow"
    by (simp add: one_escrow_registry_def fresh_escrow_def)
  have b: "\<not> legal (status fresh_escrow) ConfirmFulfillment"
    by (simp add: legal_def status_graph_def fresh_escrow_def)
  show ?thesis
    using a b illegal_command_rejected[OF a b] by simp
qed

end
